theory Spec2Isabelle
  imports Main "HOL-Library.AList" "HOL-Library.Word"
begin

section \<open>JavaScript values\<close>

text \<open>
  The model follows \<^verbatim>\<open>src/lib/RedisConnection.js\<close>, which holds two classes:
  \<^verbatim>\<open>RedisConnection\<close>, the adapter of one Redis server, and \<^verbatim>\<open>MultiplexingCache\<close>, the
  decorator that coalesces reads. A method whose name starts with an underscore, such as
  \<^verbatim>\<open>_mget\<close>, is \<open>priv_mget\<close> here; the public methods of \<^verbatim>\<open>MultiplexingCache\<close>
  carry the prefix \<open>mc_\<close> and those of \<^verbatim>\<open>RedisConnection\<close> the prefix \<open>rc_\<close>, since
  the two classes share their names.

  A JavaScript string is a sequence of UTF-16 code units, and \<^verbatim>\<open>.length\<close> counts them.
  \<open>lit\<close> turns an ASCII literal of the source into code units.
\<close>

type_synonym jsstring = "16 word list"

definition lit :: "string \<Rightarrow> jsstring" where
  "lit s = map (\<lambda>c. of_nat (of_char c)) s"

text \<open>A cache value as \<^verbatim>\<open>_compress\<close> and \<^verbatim>\<open>_uncompress\<close> declare it:
  \<^verbatim>\<open>string|undefined|null\<close>.\<close>

datatype jsvalue = Undefined | Null | Str jsstring

text \<open>\<^verbatim>\<open>!value\<close>: \<^verbatim>\<open>undefined\<close>, \<^verbatim>\<open>null\<close> and the empty string are falsy.\<close>

definition falsy :: "jsvalue \<Rightarrow> bool" where
  "falsy v = (case v of Undefined \<Rightarrow> True | Null \<Rightarrow> True | Str s \<Rightarrow> s = [])"

text \<open>A settled promise: \<^verbatim>\<open>Q.resolve(x)\<close> is \<open>Resolved x\<close>, a rejected promise carries its
  reason. \<open>promise_then\<close> is \<^verbatim>\<open>then\<close> with a success handler only: a rejection passes
  through.\<close>

datatype ('e, 'a) promise = Resolved 'a | Rejected 'e

definition promise_then ::
  "('e, 'a) promise \<Rightarrow> ('a \<Rightarrow> ('e, 'b) promise) \<Rightarrow> ('e, 'b) promise" where
  "promise_then p f = (case p of Resolved x \<Rightarrow> f x | Rejected e \<Rightarrow> Rejected e)"

section \<open>RedisConnection: the value codec\<close>

text \<open>
  \<^verbatim>\<open>Q.nfcall(fn, args)\<close> calls a node-style function, one that reports through a
  callback \<^verbatim>\<open>(err, data)\<close>, and returns a promise: rejected with \<^verbatim>\<open>err\<close> when the
  callback gets one, fulfilled with \<^verbatim>\<open>data\<close> otherwise (the convention that
  \<^verbatim>\<open>_makeNodeResolverWithTimeout\<close> below implements by hand). A \<^verbatim>\<open>try\<close> around the
  call sees only what is thrown before the promise is returned. The three outcomes:
\<close>

datatype ('e, 'a) nfcall = Throws 'e | Fulfils 'a | Rejects 'e

text \<open>
  The snappy binding and the two \<^verbatim>\<open>Buffer\<close> conversions are libraries outside the
  repository; they are parameters of the model. \<open>'b\<close> is the type of a \<^verbatim>\<open>Buffer\<close>.
\<close>

record ('b, 'e) snappy =
  nfcall_compress :: "jsstring \<Rightarrow> ('e, 'b) nfcall"
  nfcall_uncompress :: "'b \<Rightarrow> ('e, jsstring) nfcall"
  toString_base64 :: "'b \<Rightarrow> jsstring"
  Buffer_base64 :: "jsstring \<Rightarrow> 'e + 'b"

record connection =
  snappyPivot :: nat
  compressedPrefix :: jsstring
  uncompressedPrefix :: jsstring
  compressionEnabled :: bool

text \<open>The constructor, for the fields the codec reads:
  \<^verbatim>\<open>(options && options.compressionEnabled) || false\<close>.\<close>

definition RedisConnection :: "bool option \<Rightarrow> connection" where
  "RedisConnection compressionEnabledOption =
     \<lparr>snappyPivot = 750,
      compressedPrefix = lit ''@snappy@'',
      uncompressedPrefix = lit ''@orig@'',
      compressionEnabled = (case compressionEnabledOption of Some b \<Rightarrow> b | None \<Rightarrow> False)\<rparr>"

text \<open>\<^verbatim>\<open>value.indexOf(prefix) === 0\<close>: the first occurrence of \<^verbatim>\<open>prefix\<close> is at 0
  exactly when \<^verbatim>\<open>value\<close> starts with it.\<close>

definition indexOf_is_0 :: "jsstring \<Rightarrow> jsstring \<Rightarrow> bool" where
  "indexOf_is_0 s prefix = (take (length prefix) s = prefix)"

text \<open>\<^verbatim>\<open>_compress\<close>. The \<^verbatim>\<open>console.warn\<close> of the \<^verbatim>\<open>catch\<close> block is not modelled.\<close>

definition priv_compress ::
  "('b, 'e) snappy \<Rightarrow> connection \<Rightarrow> jsvalue \<Rightarrow> ('e, jsvalue) promise" where
  "priv_compress lib this val =
     (if falsy val \<or> \<not> compressionEnabled this then Resolved val
      else case val of
        Str s \<Rightarrow>
          if length s > snappyPivot this then
            (case nfcall_compress lib s of
               Throws e \<Rightarrow> Resolved (Str (uncompressedPrefix this @ s))
             | Fulfils compressed \<Rightarrow>
                 Resolved (Str (compressedPrefix this @ toString_base64 lib compressed))
             | Rejects e \<Rightarrow> Rejected e)
          else Resolved (Str (uncompressedPrefix this @ s))
      | _ \<Rightarrow> Resolved val)"

text \<open>\<^verbatim>\<open>_uncompress\<close>. It never reads \<^verbatim>\<open>this._compressionEnabled\<close>.\<close>

definition priv_uncompress ::
  "('b, 'e) snappy \<Rightarrow> connection \<Rightarrow> jsvalue \<Rightarrow> ('e, jsvalue) promise" where
  "priv_uncompress lib this val =
     (if falsy val then Resolved val
      else case val of
        Str s \<Rightarrow>
          if indexOf_is_0 s (compressedPrefix this) then
            (case Buffer_base64 lib (drop (length (compressedPrefix this)) s) of
               Inl e \<Rightarrow> Resolved Undefined
             | Inr compressedBuf \<Rightarrow>
                 (case nfcall_uncompress lib compressedBuf of
                    Throws e \<Rightarrow> Resolved Undefined
                  | Fulfils t \<Rightarrow> Resolved (Str t)
                  | Rejects e \<Rightarrow> Rejected e))
          else if indexOf_is_0 s (uncompressedPrefix this) then
            Resolved (Str (drop (length (uncompressedPrefix this)) s))
          else Resolved val
      | _ \<Rightarrow> Resolved val)"

text \<open>Two stand-ins for the library, for evaluating the codec on concrete values: one that
  hands the text back unchanged, one whose calls report \<open>err\<close> through the callback.\<close>

definition echo_snappy :: "(jsstring, string) snappy" where
  "echo_snappy =
     \<lparr>nfcall_compress = Fulfils, nfcall_uncompress = Fulfils,
      toString_base64 = id, Buffer_base64 = Inr\<rparr>"

definition failing_snappy :: "string \<Rightarrow> (jsstring, string) snappy" where
  "failing_snappy err =
     \<lparr>nfcall_compress = (\<lambda>s. Rejects err), nfcall_uncompress = (\<lambda>b. Rejects err),
      toString_base64 = id, Buffer_base64 = Inr\<rparr>"

section \<open>RedisConnection: dispatch with a timeout\<close>

text \<open>
  \<^verbatim>\<open>_makeNodeResolverWithTimeout(deferred, opName, opDesc)\<close> starts a timer and returns
  the callback given to the Redis client. The closure holds \<^verbatim>\<open>isTimeout\<close> and
  \<^verbatim>\<open>startTime\<close>; \<open>timerPending\<close> says that the timer was neither fired nor cleared.
  \<open>deferred\<close> lists the calls made on the deferred, \<^verbatim>\<open>reject\<close> or \<^verbatim>\<open>resolve\<close>, in
  order: the caller-facing promise is settled by the first. Time is the reading of
  \<^verbatim>\<open>Date.now()\<close>, given with each event.
\<close>

datatype 'e request_error = TimeoutError jsstring | ClientError 'e

datatype ('e, 'd) deferred_call = Reject "'e request_error" | Resolve 'd

record ('e, 'd) resolver =
  isTimeout :: bool
  startTime :: int
  timerPending :: bool
  opName :: string
  opDesc :: jsstring
  deferred :: "('e, 'd) deferred_call list"

text \<open>Modelled from the spec: \<^verbatim>\<open>getStats\<close> and \<^verbatim>\<open>_getTimeoutCounter\<close> belong to
  \<^verbatim>\<open>CacheInstance\<close>, which is not among the sources: a latency statistic per operation
  name that records every \<^verbatim>\<open>update\<close>, and a timeout counter per operation name.\<close>

record instruments =
  stats :: "string \<Rightarrow> int list"
  timeoutCounter :: "string \<Rightarrow> nat"

definition priv_makeNodeResolverWithTimeout ::
  "int \<Rightarrow> string \<Rightarrow> jsstring \<Rightarrow> ('e, 'd) resolver" where
  "priv_makeNodeResolverWithTimeout now name desc =
     \<lparr>isTimeout = False, startTime = now, timerPending = True,
      opName = name, opDesc = desc, deferred = []\<rparr>"

text \<open>The function given to \<^verbatim>\<open>setTimeout\<close> runs, if the timer is still pending.\<close>

definition timer_fires ::
  "instruments \<times> ('e, 'd) resolver \<Rightarrow> instruments \<times> ('e, 'd) resolver" where
  "timer_fires c =
     (let (self, r) = c in
      if timerPending r then
        (self\<lparr>timeoutCounter :=
                (timeoutCounter self)(opName r := timeoutCounter self (opName r) + 1)\<rparr>,
         r\<lparr>deferred :=
              deferred r @ [Reject (TimeoutError (lit ''Cache request timeout. '' @ opDesc r))],
           isTimeout := True, timerPending := False\<rparr>)
      else c)"

text \<open>The client calls the returned callback with \<^verbatim>\<open>(err, data)\<close>; \<open>None\<close> is a falsy
  \<^verbatim>\<open>err\<close>.\<close>

definition node_callback ::
  "int \<Rightarrow> 'e option \<Rightarrow> 'd \<Rightarrow> instruments \<times> ('e, 'd) resolver
     \<Rightarrow> instruments \<times> ('e, 'd) resolver" where
  "node_callback now err data c =
     (let (self, r) = c;
          self1 = self\<lparr>stats :=
                    (stats self)(opName r := stats self (opName r) @ [now - startTime r])\<rparr>
      in if \<not> isTimeout r then
           (self1,
            r\<lparr>timerPending := False,
              deferred := deferred r @
                [case err of Some e \<Rightarrow> Reject (ClientError e) | None \<Rightarrow> Resolve data]\<rparr>)
         else (self1, r))"

section \<open>RedisConnection: getServerInfo\<close>

text \<open>A field of \<^verbatim>\<open>ServerInfo\<close>: not assigned, \<^verbatim>\<open>NaN\<close>, or an integer (\<^verbatim>\<open>parseInt\<close>
  returns a double: the integer is the value the code computes below \<open>2 ^ 53\<close>; above it
  the code rounds, and the model does not).\<close>

datatype jsnumber = NotSet | NaN | Num int

record server_info =
  memoryBytes :: jsnumber
  memoryRssBytes :: jsnumber
  evictedKeys :: jsnumber
  numOfConnections :: jsnumber
  numOfKeys :: jsnumber

text \<open>\<^verbatim>\<open>s.split(c)\<close> for a separator of one code unit.\<close>

fun split_on :: "'a \<Rightarrow> 'a list \<Rightarrow> 'a list list" where
  "split_on c [] = [[]]"
| "split_on c (x # xs) =
     (if x = c then [] # split_on c xs
      else case split_on c xs of [] \<Rightarrow> [[x]] | y # ys \<Rightarrow> (x # y) # ys)"

text \<open>\<^verbatim>\<open>s.indexOf(c)\<close>: the first position of \<open>c\<close>, or \<open>-1\<close>.\<close>

fun indexOf :: "'a list \<Rightarrow> 'a \<Rightarrow> int" where
  "indexOf [] c = - 1"
| "indexOf (x # xs) c =
     (if x = c then 0 else if indexOf xs c < 0 then - 1 else indexOf xs c + 1)"

text \<open>White space and line terminators of ECMAScript, which \<^verbatim>\<open>trim\<close> and \<^verbatim>\<open>parseInt\<close>
  strip.\<close>

definition isWhiteSpace :: "16 word \<Rightarrow> bool" where
  "isWhiteSpace c \<longleftrightarrow>
     c \<in> set [0x9, 0xA, 0xB, 0xC, 0xD, 0x20, 0xA0, 0x1680, 0x2000, 0x2001, 0x2002, 0x2003,
              0x2004, 0x2005, 0x2006, 0x2007, 0x2008, 0x2009, 0x200A, 0x2028, 0x2029, 0x202F,
              0x205F, 0x3000, 0xFEFF]"

definition trim :: "jsstring \<Rightarrow> jsstring" where
  "trim s = rev (dropWhile isWhiteSpace (rev (dropWhile isWhiteSpace s)))"

text \<open>\<^verbatim>\<open>xs[i]\<close> on an array: \<^verbatim>\<open>undefined\<close> (\<open>None\<close>) past the end.\<close>

definition array_at :: "'a list \<Rightarrow> nat \<Rightarrow> 'a option" where
  "array_at xs i = (if i < length xs then Some (xs ! i) else None)"

definition isDigit :: "16 word \<Rightarrow> bool" where
  "isDigit c \<longleftrightarrow> 0x30 \<le> c \<and> c \<le> 0x39"

definition digits_value :: "jsstring \<Rightarrow> int" where
  "digits_value ds = foldl (\<lambda>a d. 10 * a + (uint d - 48)) 0 ds"

text \<open>\<^verbatim>\<open>parseInt(arg, 10)\<close>: \<^verbatim>\<open>undefined\<close> converts to the string \<^verbatim>\<open>"undefined"\<close>, which
  has no digits; otherwise leading white space, a sign, and the longest run of digits.\<close>

definition parseInt10 :: "jsstring option \<Rightarrow> jsnumber" where
  "parseInt10 arg =
     (case arg of
        None \<Rightarrow> NaN
      | Some str \<Rightarrow>
          (let s = dropWhile isWhiteSpace str;
               sign = (if s \<noteq> [] \<and> hd s = 0x2D then - 1 else 1);
               body = (if s \<noteq> [] \<and> (hd s = 0x2B \<or> hd s = 0x2D) then tl s else s);
               ds = takeWhile isDigit body
           in if ds = [] then NaN else Num (sign * digits_value ds)))"

text \<open>The chain \<^verbatim>\<open>split('\n').filter(...).map(...).map(...)\<close> that fills \<^verbatim>\<open>items\<close>.\<close>

definition parse_items :: "jsstring \<Rightarrow> (jsstring \<times> jsstring option) list" where
  "parse_items infoCmdOutput =
     foldl (\<lambda>items item.
              AList.update (case array_at item 0 of Some k \<Rightarrow> k | None \<Rightarrow> lit ''undefined'')
                (array_at item 1) items)
       []
       (map (\<lambda>str. split_on 0x3A (trim str))
          (filter (\<lambda>str. indexOf str 0x3A > 0) (split_on 0xA infoCmdOutput)))"

definition property :: "(jsstring \<times> jsstring option) list \<Rightarrow> string \<Rightarrow> jsstring option" where
  "property items name = (case map_of items (lit name) of Some (Some v) \<Rightarrow> Some v | _ \<Rightarrow> None)"

datatype 'e info_error = InfoCommandError 'e | MalformattedOutput

text \<open>
  The handler given to \<^verbatim>\<open>then\<close> in \<^verbatim>\<open>getServerInfo\<close>; \<open>new_ServerInfo\<close> is what the
  constructor of \<^verbatim>\<open>ServerInfo\<close> (not among the sources) returns. The four first
  assignments cannot throw. The fifth throws a \<^verbatim>\<open>TypeError\<close> when \<^verbatim>\<open>items['db0']\<close> is
  \<^verbatim>\<open>undefined\<close>; the \<^verbatim>\<open>catch\<close> block then builds a rejected promise,
  \<^verbatim>\<open>Q.reject(new Error(...))\<close>, and drops it, and the function goes on to
  \<^verbatim>\<open>return Q.resolve(serverInfo)\<close>.
\<close>

definition getServerInfo_then ::
  "server_info \<Rightarrow> jsstring \<Rightarrow> ('e info_error, server_info) promise" where
  "getServerInfo_then new_ServerInfo infoCmdOutput =
     (let items = parse_items infoCmdOutput;
          s1 = new_ServerInfo\<lparr>memoryBytes := parseInt10 (property items ''used_memory'')\<rparr>;
          s2 = s1\<lparr>memoryRssBytes := parseInt10 (property items ''used_memory_rss'')\<rparr>;
          s3 = s2\<lparr>evictedKeys := parseInt10 (property items ''evicted_keys'')\<rparr>;
          s4 = s3\<lparr>numOfConnections := parseInt10 (property items ''connected_clients'')\<rparr>;
          serverInfo =
            (case property items ''db0'' of
               None \<Rightarrow> s4
             | Some db0 \<Rightarrow>
                 s4\<lparr>numOfKeys :=
                      parseInt10 (case array_at (split_on 0x2C db0) 0 of
                                    None \<Rightarrow> None
                                  | Some first \<Rightarrow> array_at (split_on 0x3D first) 1)\<rparr>)
      in Resolved serverInfo)"

text \<open>\<^verbatim>\<open>getServerInfo\<close>, given what the client passes to the node resolver.\<close>

definition rc_getServerInfo ::
  "server_info \<Rightarrow> 'e + jsstring \<Rightarrow> ('e info_error, server_info) promise" where
  "rc_getServerInfo new_ServerInfo reply =
     (case reply of
        Inl err \<Rightarrow> Rejected (InfoCommandError err)
      | Inr infoCmdOutput \<Rightarrow> getServerInfo_then new_ServerInfo infoCmdOutput)"

section \<open>MultiplexingCache: the request coalescer\<close>

text \<open>
  The second part of \<^verbatim>\<open>src/lib/RedisConnection.js\<close> (\<^verbatim>\<open>MultiplexingCache\<close>) keeps one
  plain JavaScript object, \<^verbatim>\<open>this._pendingGets\<close>, from cache key to the promise of the
  batch read that will deliver the key.

  A JavaScript object is modelled as an association list in insertion order:
  \<^verbatim>\<open>obj[k] = v\<close> is \<open>AList.update k v\<close>, \<^verbatim>\<open>delete obj[k]\<close> is \<open>AList.delete k\<close>,
  \<^verbatim>\<open>obj[k]\<close> is \<open>map_of obj k\<close> (\<open>None\<close> for \<^verbatim>\<open>undefined\<close>) and
  \<^verbatim>\<open>Object.keys(obj).length == 0\<close> is \<open>obj = []\<close>. Keys are the own properties only: a
  cache key that names a member of \<^verbatim>\<open>Object.prototype\<close> is outside the model (see
  \<open>Object_prototype_members\<close> below). The order
  of the list is the order of insertion, which \<^verbatim>\<open>for ... in\<close> follows for keys that are
  not array indices; what a caller reads from an object is \<open>map_of\<close> of it.

  A promise returned by \<^verbatim>\<open>_mget\<close> is identified by its position in the list of
  all batch reads issued so far. The delegate settles a batch read in a later turn of the
  event loop (as \<^verbatim>\<open>RedisConnection.mget\<close> does for a non-empty key list); that turn is
  the function \<open>delegate_settles\<close>.
\<close>

type_synonym key = jsstring

type_synonym 'a jsobject = "(key \<times> 'a) list"

record 'v item =
  item_key :: key
  item_value :: 'v

text \<open>An element of the array given to \<^verbatim>\<open>_invalidateKeys\<close>: a string or an object
  with a \<^verbatim>\<open>key\<close> property.\<close>

datatype 'v keyref = KString key | KItem "'v item"

text \<open>A call made on \<^verbatim>\<open>this._delegate\<close>, with the arguments as they were passed
  (\<open>None\<close> is an argument left \<^verbatim>\<open>undefined\<close>).\<close>

datatype 'v delegate_call =
    MgetCall "key list"
  | MsetCall "'v item list" "int option" "bool option"
  | IncrCall key "int option"
  | SetCall key 'v "int option" "bool option"
  | DelCall key

text \<open>The side effects of the coalescer in program order: a \<^verbatim>\<open>delete\<close> on the index,
  an assignment to the index, a call on the delegate.\<close>

datatype 'v effect =
    IndexDelete key
  | IndexAssign key nat
  | Delegate "'v delegate_call"

text \<open>How a promise settled, as \<^verbatim>\<open>Q.allSettled\<close> reports it. A value of the result
  map is \<open>None\<close> for \<^verbatim>\<open>undefined\<close>; a rejection reason is \<open>None\<close> when it is falsy.\<close>

datatype ('v, 'e) settlement =
    FulfilledWith "'v option jsobject"
  | RejectedWith "'e option"

record ('v, 'e) fetch =
  fetch_keys :: "key list"
  fetch_state :: "('v, 'e) settlement option"

record ('v, 'e) multiplexing_cache =
  pendingGets :: "nat jsobject"
  fetches :: "('v, 'e) fetch list"
  effects :: "'v effect list"

text \<open>The constructor: \<^verbatim>\<open>this._pendingGets = {}\<close>.\<close>

definition MultiplexingCache :: "('v, 'e) multiplexing_cache" where
  "MultiplexingCache = \<lparr>pendingGets = [], fetches = [], effects = []\<rparr>"

definition delegate_calls :: "('v, 'e) multiplexing_cache \<Rightarrow> 'v delegate_call list" where
  "delegate_calls s = concat (map (\<lambda>e. case e of Delegate c \<Rightarrow> [c] | _ \<Rightarrow> []) (effects s))"

definition call_delegate ::
  "'v delegate_call \<Rightarrow> ('v, 'e) multiplexing_cache \<Rightarrow> ('v, 'e) multiplexing_cache" where
  "call_delegate c s = s\<lparr>effects := effects s @ [Delegate c]\<rparr>"

text \<open>\<^verbatim>\<open>_invalidateKeys\<close>: one \<^verbatim>\<open>delete this._pendingGets[key]\<close> per element.\<close>

definition keyref_key :: "'v keyref \<Rightarrow> key" where
  "keyref_key r = (case r of KString k \<Rightarrow> k | KItem it \<Rightarrow> item_key it)"

fun priv_invalidateKeys ::
  "'v keyref list \<Rightarrow> ('v, 'e) multiplexing_cache \<Rightarrow> ('v, 'e) multiplexing_cache" where
  "priv_invalidateKeys [] s = s"
| "priv_invalidateKeys (r # rs) s =
     priv_invalidateKeys rs
       (s\<lparr>pendingGets := AList.delete (keyref_key r) (pendingGets s),
          effects := effects s @ [IndexDelete (keyref_key r)]\<rparr>)"

text \<open>\<^verbatim>\<open>_convertToMap(keys)(results)\<close>: \<open>None\<close> is a falsy \<^verbatim>\<open>results\<close>; reading an array
  past its end gives \<^verbatim>\<open>undefined\<close>.\<close>

definition array_get :: "'a option list \<Rightarrow> nat \<Rightarrow> 'a option" where
  "array_get xs i = (if i < length xs then xs ! i else None)"

definition priv_convertToMap :: "key list \<Rightarrow> 'v option list option \<Rightarrow> 'v option jsobject" where
  "priv_convertToMap keys results =
     (case results of
        None \<Rightarrow> []
      | Some rs \<Rightarrow> foldl (\<lambda>resultMap i. AList.update (keys ! i) (array_get rs i) resultMap)
                     [] [0..<length keys])"

text \<open>\<^verbatim>\<open>_extractValue(key)(map)\<close> is \<^verbatim>\<open>map[key]\<close>.\<close>

definition priv_extractValue :: "key \<Rightarrow> 'v option jsobject \<Rightarrow> 'v option" where
  "priv_extractValue k m = (case map_of m k of None \<Rightarrow> None | Some v \<Rightarrow> v)"

text \<open>\<^verbatim>\<open>_mget(keys)\<close> calls \<^verbatim>\<open>this._delegate.mget(keys)\<close> and returns a new promise, still
  pending.\<close>

definition priv_mget ::
  "key list \<Rightarrow> ('v, 'e) multiplexing_cache \<Rightarrow> nat \<times> ('v, 'e) multiplexing_cache" where
  "priv_mget keys s =
     (length (fetches s),
      (call_delegate (MgetCall keys) s)
        \<lparr>fetches := fetches s @ [\<lparr>fetch_keys = keys, fetch_state = None\<rparr>]\<rparr>)"

text \<open>The delegate's promise for batch read \<open>p\<close> settles: \<open>Inr results\<close> runs the
  \<^verbatim>\<open>then\<close> handler of \<^verbatim>\<open>_mget\<close>, \<open>Inl e\<close> its \<^verbatim>\<open>fail\<close> handler. Both call
  \<^verbatim>\<open>invalidateFn\<close> first. A promise settles once.\<close>

definition delegate_settles ::
  "nat \<Rightarrow> 'e option + 'v option list option \<Rightarrow> ('v, 'e) multiplexing_cache
     \<Rightarrow> ('v, 'e) multiplexing_cache" where
  "delegate_settles p outcome s =
     (if p < length (fetches s) \<and> fetch_state (fetches s ! p) = None then
        let keys = fetch_keys (fetches s ! p);
            s1 = priv_invalidateKeys (map KString keys) s;
            r = (case outcome of
                   Inr results \<Rightarrow> FulfilledWith (priv_convertToMap keys results)
                 | Inl e \<Rightarrow> RejectedWith e)
        in s1\<lparr>fetches := (fetches s1)[p := \<lparr>fetch_keys = keys, fetch_state = Some r\<rparr>]\<rparr>
      else s)"

subsection \<open>Writes\<close>

definition mc_mset ::
  "'v item list \<Rightarrow> int option \<Rightarrow> bool option \<Rightarrow> ('v, 'e) multiplexing_cache
     \<Rightarrow> ('v, 'e) multiplexing_cache" where
  "mc_mset items maxAgeMs setWhenNotExist s =
     call_delegate (MsetCall items maxAgeMs setWhenNotExist)
       (priv_invalidateKeys (map KItem items) s)"

definition mc_incr ::
  "key \<Rightarrow> int option \<Rightarrow> ('v, 'e) multiplexing_cache \<Rightarrow> ('v, 'e) multiplexing_cache" where
  "mc_incr k increment s =
     call_delegate (IncrCall k increment) (priv_invalidateKeys [KString k] s)"

definition mc_set ::
  "key \<Rightarrow> 'v \<Rightarrow> int option \<Rightarrow> bool option \<Rightarrow> ('v, 'e) multiplexing_cache
     \<Rightarrow> ('v, 'e) multiplexing_cache" where
  "mc_set k val maxAgeMs setWhenNotExist s =
     call_delegate (SetCall k val maxAgeMs setWhenNotExist) (priv_invalidateKeys [KString k] s)"

definition mc_del :: "key \<Rightarrow> ('v, 'e) multiplexing_cache \<Rightarrow> ('v, 'e) multiplexing_cache" where
  "mc_del k s = call_delegate (DelCall k) (priv_invalidateKeys [KString k] s)"

subsection \<open>Reads\<close>

text \<open>\<^verbatim>\<open>get(key)\<close> returns \<^verbatim>\<open>this._pendingGets[key].then(this._extractValue(key))\<close>: the
  promise it is attached to, and the key it projects.\<close>

definition mc_get ::
  "key \<Rightarrow> ('v, 'e) multiplexing_cache \<Rightarrow> (nat \<times> key) \<times> ('v, 'e) multiplexing_cache" where
  "mc_get k s =
     (case map_of (pendingGets s) k of
        None \<Rightarrow>
          (let (p, s1) = priv_mget [k] s
           in ((p, k), s1\<lparr>pendingGets := AList.update k p (pendingGets s1),
                          effects := effects s1 @ [IndexAssign k p]\<rparr>))
      | Some p \<Rightarrow> ((p, k), s))"

definition get_result ::
  "('v, 'e) multiplexing_cache \<Rightarrow> nat \<times> key \<Rightarrow> ('e option + 'v option) option" where
  "get_result s h =
     (case fetch_state (fetches s ! fst h) of
        None \<Rightarrow> None
      | Some (FulfilledWith m) \<Rightarrow> Some (Inr (priv_extractValue (snd h) m))
      | Some (RejectedWith e) \<Rightarrow> Some (Inl e))"

text \<open>The first loop of \<^verbatim>\<open>mget\<close>, over \<^verbatim>\<open>keys\<close>, with its two arrays
  \<^verbatim>\<open>keysToFetch\<close> and \<^verbatim>\<open>promisesToWaitFor\<close>.\<close>

fun mget_scan :: "nat jsobject \<Rightarrow> key list \<Rightarrow> key list \<times> nat list \<Rightarrow> key list \<times> nat list" where
  "mget_scan idx [] acc = acc"
| "mget_scan idx (k # ks) (keysToFetch, promisesToWaitFor) =
     (case map_of idx k of
        Some p \<Rightarrow> mget_scan idx ks (keysToFetch, promisesToWaitFor @ [p])
      | None \<Rightarrow> mget_scan idx ks (keysToFetch @ [k], promisesToWaitFor))"

text \<open>The second loop: \<^verbatim>\<open>this._pendingGets[keysToFetch[j]] = mgetPromise\<close>.\<close>

fun mget_register ::
  "nat \<Rightarrow> key list \<Rightarrow> ('v, 'e) multiplexing_cache \<Rightarrow> ('v, 'e) multiplexing_cache" where
  "mget_register p [] s = s"
| "mget_register p (k # ks) s =
     mget_register p ks
       (s\<lparr>pendingGets := AList.update k p (pendingGets s),
          effects := effects s @ [IndexAssign k p]\<rparr>)"

text \<open>\<^verbatim>\<open>mget(keys)\<close> up to \<^verbatim>\<open>Q.allSettled(promisesToWaitFor)\<close>: it returns the keys and
  the promises its result waits for.\<close>

definition mc_mget ::
  "key list \<Rightarrow> ('v, 'e) multiplexing_cache
     \<Rightarrow> (key list \<times> nat list) \<times> ('v, 'e) multiplexing_cache" where
  "mc_mget keys s =
     (let (keysToFetch, promisesToWaitFor) = mget_scan (pendingGets s) keys ([], [])
      in if length keysToFetch > 0 then
           (let (mgetPromise, s1) = priv_mget keysToFetch s
            in ((keys, promisesToWaitFor @ [mgetPromise]),
                mget_register mgetPromise keysToFetch s1))
         else ((keys, promisesToWaitFor), s))"

datatype ('v, 'e) partial_result_error = PartialResultError "'v option jsobject" "'e jsobject"

text \<open>The handler given to \<^verbatim>\<open>thenBound\<close>. Its first loop reads the variable \<^verbatim>\<open>key\<close>
  of the enclosing \<^verbatim>\<open>mget\<close>, a \<^verbatim>\<open>var\<close> that the scan over \<^verbatim>\<open>keys\<close> left at the last
  key (\<^verbatim>\<open>undefined\<close>, the property name \<^verbatim>\<open>"undefined"\<close>, when \<^verbatim>\<open>keys\<close> is empty).\<close>

definition key_after_scan :: "key list \<Rightarrow> key" where
  "key_after_scan keys = (if keys = [] then lit ''undefined'' else last keys)"

definition copy_properties :: "'a jsobject \<Rightarrow> 'a jsobject \<Rightarrow> 'a jsobject" where
  "copy_properties src dst = foldl (\<lambda>d (k, v). AList.update k v d) dst src"

fun aggregate ::
  "key \<Rightarrow> ('v, 'e) settlement list \<Rightarrow> 'v option jsobject \<times> 'e jsobject
     \<Rightarrow> 'v option jsobject \<times> 'e jsobject" where
  "aggregate k [] acc = acc"
| "aggregate k (FulfilledWith val # maps) (aggregatedData, aggregatedErrors) =
     aggregate k maps (copy_properties val aggregatedData, aggregatedErrors)"
| "aggregate k (RejectedWith (Some reason) # maps) (aggregatedData, aggregatedErrors) =
     aggregate k maps (aggregatedData, AList.update k reason aggregatedErrors)"
| "aggregate k (RejectedWith None # maps) acc = aggregate k maps acc"

definition mget_then ::
  "key list \<Rightarrow> ('v, 'e) settlement list \<Rightarrow> ('v, 'e) partial_result_error + 'v option list" where
  "mget_then keys maps =
     (let (aggregatedData, aggregatedErrors) = aggregate (key_after_scan keys) maps ([], [])
      in if length aggregatedErrors = 0 then
           Inr (map (\<lambda>k. priv_extractValue k aggregatedData) keys)
         else Inl (PartialResultError aggregatedData aggregatedErrors))"

text \<open>\<^verbatim>\<open>Q.allSettled\<close>: settled once every promise of the list is.\<close>

fun allSettled ::
  "('v, 'e) multiplexing_cache \<Rightarrow> nat list \<Rightarrow> ('v, 'e) settlement list option" where
  "allSettled s [] = Some []"
| "allSettled s (p # ps) =
     (case fetch_state (fetches s ! p) of
        None \<Rightarrow> None
      | Some r \<Rightarrow> (case allSettled s ps of None \<Rightarrow> None | Some rs \<Rightarrow> Some (r # rs)))"

definition mget_result ::
  "('v, 'e) multiplexing_cache \<Rightarrow> key list \<times> nat list
     \<Rightarrow> (('v, 'e) partial_result_error + 'v option list) option" where
  "mget_result s h =
     (case allSettled s (snd h) of None \<Rightarrow> None | Some maps \<Rightarrow> Some (mget_then (fst h) maps))"

subsection \<open>Runs of the coalescer\<close>

text \<open>What can happen to a coalescer: a caller calls one of its operations, or the delegate
  settles a batch read.\<close>

datatype ('v, 'e) event =
    Get key
  | Mget "key list"
  | Mset "'v item list" "int option" "bool option"
  | Incr key "int option"
  | Set key 'v "int option" "bool option"
  | Del key
  | Settles nat "'e option + 'v option list option"

fun step :: "('v, 'e) multiplexing_cache \<Rightarrow> ('v, 'e) event \<Rightarrow> ('v, 'e) multiplexing_cache" where
  "step s (Get k) = snd (mc_get k s)"
| "step s (Mget keys) = snd (mc_mget keys s)"
| "step s (Mset items maxAgeMs setWhenNotExist) = mc_mset items maxAgeMs setWhenNotExist s"
| "step s (Incr k increment) = mc_incr k increment s"
| "step s (Set k val maxAgeMs setWhenNotExist) = mc_set k val maxAgeMs setWhenNotExist s"
| "step s (Del k) = mc_del k s"
| "step s (Settles p outcome) = delegate_settles p outcome s"

definition run :: "('v, 'e) event list \<Rightarrow> ('v, 'e) multiplexing_cache" where
  "run evs = foldl step MultiplexingCache evs"

text \<open>The index holds one entry per key, and every entry is the promise of a batch read
  that has not settled and that covers the key.\<close>

definition index_ok :: "('v, 'e) multiplexing_cache \<Rightarrow> bool" where
  "index_ok s \<longleftrightarrow>
     distinct (map fst (pendingGets s)) \<and>
     (\<forall>k p. map_of (pendingGets s) k = Some p \<longrightarrow>
        p < length (fetches s) \<and> fetch_state (fetches s ! p) = None \<and>
        k \<in> set (fetch_keys (fetches s ! p)))"








text \<open>A state for examples: one batch read for the keys A and B is in flight.\<close>

definition two_keys_in_flight :: "(nat, string) multiplexing_cache" where
  "two_keys_in_flight = snd (mc_mget [lit ''A'', lit ''B''] MultiplexingCache)"

text \<open>Instruments for examples: nothing measured yet; and an \<^verbatim>\<open>mget\<close> dispatched at time
  1000 whose timer has fired.\<close>

definition no_measurements :: instruments where
  "no_measurements = \<lparr>stats = (\<lambda>name. []), timeoutCounter = (\<lambda>name. 0)\<rparr>"

definition timed_out_mget :: "instruments \<times> (string, jsvalue list) resolver" where
  "timed_out_mget =
     timer_fires (no_measurements, priv_makeNodeResolverWithTimeout 1000 ''mget'' (lit ''Redis [mget]''))"

section \<open>The coalescer: how each operation changes the state\<close>

lemma invalidate_fetches: "fetches (priv_invalidateKeys rs s) = fetches s"
  by (induction rs arbitrary: s) simp_all

lemma invalidate_effects:
  "effects (priv_invalidateKeys rs s) = effects s @ map (\<lambda>r. IndexDelete (keyref_key r)) rs"
  by (induction rs arbitrary: s) simp_all

lemma invalidate_index:
  "map_of (pendingGets (priv_invalidateKeys rs s)) k =
     (if k \<in> keyref_key ` set rs then None else map_of (pendingGets s) k)"
  by (induction rs arbitrary: s) (auto simp: AList.delete_conv')

lemma invalidate_distinct:
  "distinct (map fst (pendingGets s)) \<Longrightarrow> distinct (map fst (pendingGets (priv_invalidateKeys rs s)))"
  by (induction rs arbitrary: s) (simp_all add: AList.distinct_delete)

lemma mget_scan_eq:
  "mget_scan idx ks (a, b) =
     (a @ filter (\<lambda>k. map_of idx k = None) ks, b @ List.map_filter (map_of idx) ks)"
  by (induction ks arbitrary: a b) (auto split: option.splits)

lemma register_fetches: "fetches (mget_register p ks s) = fetches s"
  by (induction ks arbitrary: s) simp_all

lemma register_effects:
  "effects (mget_register p ks s) = effects s @ map (\<lambda>k. IndexAssign k p) ks"
  by (induction ks arbitrary: s) simp_all

lemma register_index:
  "map_of (pendingGets (mget_register p ks s)) k =
     (if k \<in> set ks then Some p else map_of (pendingGets s) k)"
  by (induction ks arbitrary: s) (auto simp: AList.update_conv')

lemma register_distinct:
  "distinct (map fst (pendingGets s)) \<Longrightarrow> distinct (map fst (pendingGets (mget_register p ks s)))"
  by (induction ks arbitrary: s) (simp_all add: AList.distinct_update)

lemma delegate_calls_append:
  "delegate_calls (s\<lparr>effects := effects s @ es\<rparr>) =
     delegate_calls s @ concat (map (\<lambda>e. case e of Delegate c \<Rightarrow> [c] | _ \<Rightarrow> []) es)"
  by (simp add: delegate_calls_def)


lemma calls_register: "delegate_calls (mget_register p ks s) = delegate_calls s"
  by (induction ks arbitrary: s) (simp_all add: delegate_calls_def)

lemma calls_priv_mget: "delegate_calls (snd (priv_mget ks s)) = delegate_calls s @ [MgetCall ks]"
  by (simp add: priv_mget_def call_delegate_def delegate_calls_def)

lemma get_calls:
  "delegate_calls (snd (mc_get k s)) =
     delegate_calls s @ (if map_of (pendingGets s) k = None then [MgetCall [k]] else [])"
  by (auto simp: mc_get_def priv_mget_def call_delegate_def delegate_calls_def split: option.splits)

lemma get_index:
  "map_of (pendingGets (snd (mc_get k s))) k' =
     (if k' = k \<and> map_of (pendingGets s) k = None then Some (length (fetches s))
      else map_of (pendingGets s) k')"
  by (auto simp: mc_get_def priv_mget_def call_delegate_def AList.update_conv' split: option.splits)

lemma get_handle:
  "fst (mc_get k s) =
     ((case map_of (pendingGets s) k of None \<Rightarrow> length (fetches s) | Some p \<Rightarrow> p), k)"
  by (auto simp: mc_get_def priv_mget_def split: option.splits)

lemma mget_calls:
  "delegate_calls (snd (mc_mget keys s)) =
     delegate_calls s @
       (if filter (\<lambda>k. map_of (pendingGets s) k = None) keys = [] then []
        else [MgetCall (filter (\<lambda>k. map_of (pendingGets s) k = None) keys)])"
  by (simp add: mc_mget_def mget_scan_eq calls_register calls_priv_mget split: prod.splits)
    (auto simp: priv_mget_def call_delegate_def delegate_calls_def calls_register)

lemma mget_index:
  "map_of (pendingGets (snd (mc_mget keys s))) k =
     (if k \<in> set keys \<and> map_of (pendingGets s) k = None then Some (length (fetches s))
      else map_of (pendingGets s) k)"
  by (auto simp: mc_mget_def mget_scan_eq register_index priv_mget_def call_delegate_def
        filter_empty_conv split: prod.splits)

lemma mget_handle:
  "fst (mc_mget keys s) =
     (keys, List.map_filter (map_of (pendingGets s)) keys @
        (if filter (\<lambda>k. map_of (pendingGets s) k = None) keys = [] then []
         else [length (fetches s)]))"
  by (auto simp: mc_mget_def mget_scan_eq priv_mget_def split: prod.splits)

lemma index_ok_init: "index_ok MultiplexingCache"
  by (simp add: index_ok_def MultiplexingCache_def)

lemma get_fetches:
  "fetches (snd (mc_get k s)) =
     fetches s @ (if map_of (pendingGets s) k = None
                  then [\<lparr>fetch_keys = [k], fetch_state = None\<rparr>] else [])"
  by (auto simp: mc_get_def priv_mget_def call_delegate_def split: option.splits)

lemma get_distinct:
  "distinct (map fst (pendingGets s)) \<Longrightarrow> distinct (map fst (pendingGets (snd (mc_get k s))))"
  by (auto simp: mc_get_def priv_mget_def call_delegate_def AList.distinct_update split: option.splits)

lemma index_ok_get: "index_ok s \<Longrightarrow> index_ok (snd (mc_get k s))"
  unfolding index_ok_def
  by (auto simp: get_distinct get_index get_fetches nth_append less_Suc_eq split: if_splits)

lemma mget_fetches:
  "fetches (snd (mc_mget keys s)) =
     fetches s @
       (if filter (\<lambda>k. map_of (pendingGets s) k = None) keys = [] then []
        else [\<lparr>fetch_keys = filter (\<lambda>k. map_of (pendingGets s) k = None) keys,
               fetch_state = None\<rparr>])"
  by (auto simp: mc_mget_def mget_scan_eq register_fetches priv_mget_def call_delegate_def
      split: prod.splits)

lemma mget_distinct:
  "distinct (map fst (pendingGets s)) \<Longrightarrow> distinct (map fst (pendingGets (snd (mc_mget keys s))))"
  by (auto simp: mc_mget_def mget_scan_eq register_distinct priv_mget_def call_delegate_def
      split: prod.splits)

lemma index_ok_mget: "index_ok s \<Longrightarrow> index_ok (snd (mc_mget keys s))"
  unfolding index_ok_def
  by (auto simp: mget_distinct mget_index mget_fetches nth_append filter_empty_conv less_Suc_eq
      split: if_splits)

lemma index_ok_invalidate: "index_ok s \<Longrightarrow> index_ok (priv_invalidateKeys rs s)"
  unfolding index_ok_def
  by (auto simp: invalidate_distinct invalidate_index invalidate_fetches split: if_splits)

lemma index_ok_call_delegate: "index_ok s \<Longrightarrow> index_ok (call_delegate c s)"
  by (simp add: index_ok_def call_delegate_def)

lemma settles_index:
  "p < length (fetches s) \<Longrightarrow> fetch_state (fetches s ! p) = None \<Longrightarrow>
   map_of (pendingGets (delegate_settles p outcome s)) k =
     (if k \<in> set (fetch_keys (fetches s ! p)) then None else map_of (pendingGets s) k)"
  by (simp add: delegate_settles_def Let_def invalidate_index keyref_key_def image_image)


lemma index_ok_settles: "index_ok s \<Longrightarrow> index_ok (delegate_settles p outcome s)"
proof (cases "p < length (fetches s) \<and> fetch_state (fetches s ! p) = None")
  case False
  then show "index_ok s \<Longrightarrow> ?thesis" by (auto simp: delegate_settles_def)
next
  case True
  assume w: "index_ok s"
  have d: "distinct (map fst (pendingGets (delegate_settles p outcome s)))"
    using w True by (simp add: index_ok_def delegate_settles_def Let_def invalidate_distinct)
  have f: "fetches (delegate_settles p outcome s) =
        (fetches s)[p := \<lparr>fetch_keys = fetch_keys (fetches s ! p),
           fetch_state = Some (case outcome of
                   Inr results \<Rightarrow> FulfilledWith (priv_convertToMap (fetch_keys (fetches s ! p)) results)
                 | Inl e \<Rightarrow> RejectedWith e)\<rparr>]"
    using True by (simp add: delegate_settles_def Let_def invalidate_fetches)
  show ?thesis
    unfolding index_ok_def
  proof (intro conjI allI impI)
    show "distinct (map fst (pendingGets (delegate_settles p outcome s)))" by (rule d)
  next
    fix k q
    assume a: "map_of (pendingGets (delegate_settles p outcome s)) k = Some q"
    then have k: "k \<notin> set (fetch_keys (fetches s ! p))" and m: "map_of (pendingGets s) k = Some q"
      using True by (auto simp: settles_index split: if_splits)
    from w m have q: "q < length (fetches s)" "fetch_state (fetches s ! q) = None"
        "k \<in> set (fetch_keys (fetches s ! q))"
      by (auto simp: index_ok_def)
    with k have "q \<noteq> p" by auto
    with q show "q < length (fetches (delegate_settles p outcome s))"
      and "fetch_state (fetches (delegate_settles p outcome s) ! q) = None"
      and "k \<in> set (fetch_keys (fetches (delegate_settles p outcome s) ! q))"
      by (simp_all add: f)
  qed
qed


lemma index_ok_writes:
  "index_ok s \<Longrightarrow> index_ok (mc_mset items a n s)"
  "index_ok s \<Longrightarrow> index_ok (mc_incr k i s)"
  "index_ok s \<Longrightarrow> index_ok (mc_set k v a n s)"
  "index_ok s \<Longrightarrow> index_ok (mc_del k s)"
  unfolding mc_mset_def mc_incr_def mc_set_def mc_del_def
  by (rule index_ok_call_delegate, rule index_ok_invalidate, assumption)+

lemma index_ok_step: "index_ok s \<Longrightarrow> index_ok (step s ev)"
  by (cases ev) (simp_all add: index_ok_get index_ok_mget index_ok_writes index_ok_settles)

lemma index_ok_foldl: "index_ok s \<Longrightarrow> index_ok (foldl step s evs)"
  by (induction evs arbitrary: s) (simp_all add: index_ok_step)

lemma index_ok_run: "index_ok (run evs)"
  by (simp add: run_def index_ok_foldl index_ok_init)

lemma get_attaches_to_pending:
  assumes "index_ok s"
  shows "fetch_state (fetches (snd (mc_get k s)) ! fst (fst (mc_get k s))) = None"
proof (cases "map_of (pendingGets s) k")
  case None
  then show ?thesis by (simp add: get_handle get_fetches)
next
  case (Some p)
  with assms have "p < length (fetches s)" "fetch_state (fetches s ! p) = None"
    by (auto simp: index_ok_def)
  with Some show ?thesis by (simp add: get_handle get_fetches)
qed

lemma map_filter_index:
  "q \<in> set (List.map_filter (map_of idx) keys) \<Longrightarrow> \<exists>k. map_of idx k = Some q"
  by (auto simp: List.map_filter_def)

lemma mget_attaches_to_pending:
  assumes "index_ok s" and "q \<in> set (snd (fst (mc_mget keys s)))"
  shows "fetch_state (fetches (snd (mc_mget keys s)) ! q) = None"
proof -
  from assms(2) consider
      (reused) "q \<in> set (List.map_filter (map_of (pendingGets s)) keys)"
    | (new) "filter (\<lambda>k. map_of (pendingGets s) k = None) keys \<noteq> []" "q = length (fetches s)"
    by (auto simp: mget_handle split: if_splits)
  then show ?thesis
  proof cases
    case reused
    then obtain k where "map_of (pendingGets s) k = Some q"
      by (blast dest: map_filter_index)
    with assms(1) have "q < length (fetches s)" "fetch_state (fetches s ! q) = None"
      by (auto simp: index_ok_def)
    then show ?thesis by (simp add: mget_fetches nth_append)
  next
    case new
    then show ?thesis by (simp add: mget_fetches)
  qed
qed








section \<open>The coalescer: one fetch in flight per key\<close>




section \<open>The coalescer: a settled fetch leaves the index\<close>

text \<open>
  C7. When the delegate settles a batch read that was pending, with a result or with an
  error, the index loses the entries of exactly the keys of that batch and keeps every
  other entry; the promise is settled from then on. A \<^verbatim>\<open>get\<close> for a key of the batch
  issued next calls the delegate with \<^verbatim>\<open>mget([k])\<close>, and an \<^verbatim>\<open>mget\<close> whose keys include
  such a key calls the delegate with a batch that contains it. In every state reached
  from the constructor, the promise a \<^verbatim>\<open>get\<close> attaches to and every promise an
  \<^verbatim>\<open>mget\<close> waits for is unsettled when the call returns: no value is served from a fetch
  that had already settled.
\<close>

theorem settled_fetch_is_evicted:
  fixes s :: "('v, 'e) multiplexing_cache" and evs :: "('v, 'e) event list"
  assumes "p < length (fetches s)" and "fetch_state (fetches s ! p) = None"
  shows
    "(let batch = fetch_keys (fetches s ! p); s' = delegate_settles p outcome s in
        (\<forall>k. map_of (pendingGets s') k =
               (if k \<in> set batch then None else map_of (pendingGets s) k))
      \<and> fetch_state (fetches s' ! p) \<noteq> None
      \<and> (\<forall>k\<in>set batch.
            delegate_calls (snd (mc_get k s')) = delegate_calls s' @ [MgetCall [k]])
      \<and> (\<forall>k\<in>set batch. \<forall>keys. k \<in> set keys \<longrightarrow>
            (\<exists>ks. k \<in> set ks \<and>
               delegate_calls (snd (mc_mget keys s')) = delegate_calls s' @ [MgetCall ks])))
     \<and> (\<forall>k. fetch_state
               (fetches (snd (mc_get k (run evs))) ! fst (fst (mc_get k (run evs)))) = None)
     \<and> (\<forall>keys. \<forall>q\<in>set (snd (fst (mc_mget keys (run evs)))).
            fetch_state (fetches (snd (mc_mget keys (run evs))) ! q) = None)"
proof -
  let ?batch = "fetch_keys (fetches s ! p)"
  let ?s' = "delegate_settles p outcome s"
  have idx: "map_of (pendingGets ?s') k =
               (if k \<in> set ?batch then None else map_of (pendingGets s) k)" for k
    using assms by (simp add: settles_index)
  have settled: "fetch_state (fetches ?s' ! p) \<noteq> None"
    using assms by (simp add: delegate_settles_def Let_def invalidate_fetches)
  have get: "delegate_calls (snd (mc_get k ?s')) = delegate_calls ?s' @ [MgetCall [k]]"
    if "k \<in> set ?batch" for k
    using that by (simp add: get_calls idx)
  have mget: "\<exists>ks. k \<in> set ks \<and>
               delegate_calls (snd (mc_mget keys ?s')) = delegate_calls ?s' @ [MgetCall ks]"
    if "k \<in> set ?batch" and "k \<in> set keys" for k keys
  proof -
    let ?ks = "filter (\<lambda>k. map_of (pendingGets ?s') k = None) keys"
    from that have "k \<in> set ?ks" by (simp add: idx)
    moreover from this have "0 < length ?ks" by (rule length_pos_if_in_set)
    then have "?ks \<noteq> []" by simp
    then have "delegate_calls (snd (mc_mget keys ?s')) = delegate_calls ?s' @ [MgetCall ?ks]"
      by (simp add: mget_calls)
    ultimately show ?thesis by blast
  qed
  have r1: "fetch_state
               (fetches (snd (mc_get k (run evs))) ! fst (fst (mc_get k (run evs)))) = None" for k
    by (rule get_attaches_to_pending [OF index_ok_run])
  have r2: "fetch_state (fetches (snd (mc_mget keys (run evs))) ! q) = None"
    if "q \<in> set (snd (fst (mc_mget keys (run evs))))" for keys q
    using that by (rule mget_attaches_to_pending [OF index_ok_run])
  show ?thesis
    unfolding Let_def
    apply (intro conjI allI ballI impI)
    subgoal by (rule idx)
    subgoal by (rule settled)
    subgoal by (rule get)
    subgoal by (rule mget)
    subgoal by (rule r1)
    subgoal by (rule r2)
    done
qed

theorem settled_fetch_is_evicted_witness:
  "0 < length (fetches two_keys_in_flight)
   \<and> fetch_state (fetches two_keys_in_flight ! 0) = None
   \<and> lit ''A'' \<in> set (fetch_keys (fetches two_keys_in_flight ! 0))
   \<and> map_of (pendingGets two_keys_in_flight) (lit ''A'') = Some 0
   \<and> map_of (pendingGets (delegate_settles 0 (Inl (Some ''down'')) two_keys_in_flight))
        (lit ''A'') = None
   \<and> delegate_calls
        (snd (mc_get (lit ''A'') (delegate_settles 0 (Inl (Some ''down'')) two_keys_in_flight))) =
      delegate_calls (delegate_settles 0 (Inl (Some ''down'')) two_keys_in_flight)
        @ [MgetCall [lit ''A'']]"
proof -
  have s: "two_keys_in_flight =
      \<lparr>pendingGets = [(lit ''A'', 0), (lit ''B'', 0)],
       fetches = [\<lparr>fetch_keys = [lit ''A'', lit ''B''], fetch_state = None\<rparr>],
       effects = [Delegate (MgetCall [lit ''A'', lit ''B'']),
                  IndexAssign (lit ''A'') 0, IndexAssign (lit ''B'') 0]\<rparr>"
    by (simp add: two_keys_in_flight_def mc_mget_def priv_mget_def call_delegate_def
        MultiplexingCache_def lit_def)
  have h1: "0 < length (fetches two_keys_in_flight)"
    and h2: "fetch_state (fetches two_keys_in_flight ! 0) = None"
    and h3: "lit ''A'' \<in> set (fetch_keys (fetches two_keys_in_flight ! 0))"
    and h4: "map_of (pendingGets two_keys_in_flight) (lit ''A'') = Some 0"
    by (simp_all add: s)
  note t = settled_fetch_is_evicted [OF h1 h2, of "Inl (Some ''down'')" "[]", unfolded Let_def]
  from t have
    "map_of (pendingGets (delegate_settles 0 (Inl (Some ''down'')) two_keys_in_flight))
        (lit ''A'') =
       (if lit ''A'' \<in> set (fetch_keys (fetches two_keys_in_flight ! 0)) then None
        else map_of (pendingGets two_keys_in_flight) (lit ''A''))"
    by blast
  with h3 have c1:
    "map_of (pendingGets (delegate_settles 0 (Inl (Some ''down'')) two_keys_in_flight))
        (lit ''A'') = None"
    by (simp only: if_True)
  from t h3 have c2: "delegate_calls
        (snd (mc_get (lit ''A'') (delegate_settles 0 (Inl (Some ''down'')) two_keys_in_flight))) =
      delegate_calls (delegate_settles 0 (Inl (Some ''down'')) two_keys_in_flight)
        @ [MgetCall [lit ''A'']]"
    by blast
  from h1 h2 h3 h4 c1 c2 show ?thesis by blast
qed

section \<open>The coalescer: writes\<close>

text \<open>
  C8. \<^verbatim>\<open>set\<close>, \<^verbatim>\<open>mset\<close>, \<^verbatim>\<open>incr\<close> and \<^verbatim>\<open>del\<close>, from any state: the effects of the
  call are the deletions from the index, one per key of the write and in order, followed
  by the call on the delegate with the arguments unchanged; afterwards the index has no
  entry for a key of the write and the other entries are as before. The call on the
  delegate is made whatever the state of the batch reads, none of which is touched.
\<close>

theorem writes_invalidate_then_forward:
  fixes s :: "('v, 'e) multiplexing_cache"
  shows
    "effects (mc_set k val maxAgeMs nx s) =
       effects s @ [IndexDelete k, Delegate (SetCall k val maxAgeMs nx)]
     \<and> effects (mc_mset items maxAgeMs nx s) =
       effects s @ map (\<lambda>it. IndexDelete (item_key it)) items
         @ [Delegate (MsetCall items maxAgeMs nx)]
     \<and> effects (mc_incr k increment s) =
       effects s @ [IndexDelete k, Delegate (IncrCall k increment)]
     \<and> effects (mc_del k s) = effects s @ [IndexDelete k, Delegate (DelCall k)]
     \<and> map_of (pendingGets (mc_set k val maxAgeMs nx s)) k' =
         (if k' = k then None else map_of (pendingGets s) k')
     \<and> map_of (pendingGets (mc_mset items maxAgeMs nx s)) k' =
         (if k' \<in> item_key ` set items then None else map_of (pendingGets s) k')
     \<and> map_of (pendingGets (mc_incr k increment s)) k' =
         (if k' = k then None else map_of (pendingGets s) k')
     \<and> map_of (pendingGets (mc_del k s)) k' =
         (if k' = k then None else map_of (pendingGets s) k')
     \<and> fetches (mc_set k val maxAgeMs nx s) = fetches s
     \<and> fetches (mc_mset items maxAgeMs nx s) = fetches s
     \<and> fetches (mc_incr k increment s) = fetches s
     \<and> fetches (mc_del k s) = fetches s"
proof -
  have e: "effects (call_delegate c (priv_invalidateKeys rs s)) =
        effects s @ map (\<lambda>r. IndexDelete (keyref_key r)) rs @ [Delegate c]" for c rs
    by (simp add: call_delegate_def invalidate_effects)
  have i: "map_of (pendingGets (call_delegate c (priv_invalidateKeys rs s))) k' =
        (if k' \<in> keyref_key ` set rs then None else map_of (pendingGets s) k')" for c rs
    by (simp add: call_delegate_def invalidate_index)
  have f: "fetches (call_delegate c (priv_invalidateKeys rs s)) = fetches s" for c rs
    by (simp add: call_delegate_def invalidate_fetches)
  show ?thesis
    unfolding mc_set_def mc_mset_def mc_incr_def mc_del_def e i f
    by (simp add: keyref_key_def image_image comp_def)
qed

section \<open>The coalescer: an empty multi-key read\<close>

text \<open>
  C10. \<^verbatim>\<open>mget([])\<close> on the coalescer, whatever the index holds: the state is unchanged
  (no call on the delegate, no entry of the index added or removed), the result waits for
  no promise, and it resolves at once to the empty list.
\<close>

theorem mget_empty_keys:
  "mc_mget [] s = (([], []), s) \<and> mget_result s (fst (mc_mget [] s)) = Some (Inr [])"
  by (simp add: mc_mget_def mget_result_def mget_then_def)

section \<open>The coalescer: a failed batch in a multi-key read\<close>

text \<open>
  C1. A multi-key read that waits for two batch reads, of which the first fails and the
  second succeeds. \<^verbatim>\<open>mget(["A"])\<close> puts a batch for A in flight; \<^verbatim>\<open>mget(["A", "B"])\<close>
  reuses it and issues a second batch for B. The delegate rejects the first batch with
  \<^verbatim>\<open>ECONNRESET\<close> and fulfils the second with the value b. The second read then fails
  with a \<^verbatim>\<open>PartialResultError\<close> whose data is \<open>{B: b}\<close> and whose errors are
  \<open>{B: ECONNRESET}\<close>: the handler stores the reason under the variable \<^verbatim>\<open>key\<close>, which
  the scan over the keys left at the last key, B, and not under the key A of the batch that
  failed.
\<close>

theorem failed_batch_recorded_under_last_key:
  "(let mc = MultiplexingCache :: (string, string) multiplexing_cache;
        (first, s1) = mc_mget [lit ''A''] mc;
        (second, s2) = mc_mget [lit ''A'', lit ''B''] s1;
        s3 = delegate_settles 0 (Inl (Some ''ECONNRESET'')) s2;
        s4 = delegate_settles 1 (Inr (Some [Some ''b''])) s3
    in (delegate_calls s4, second, mget_result s4 second)) =
   ([MgetCall [lit ''A''], MgetCall [lit ''B'']],
    ([lit ''A'', lit ''B''], [0, 1]),
    Some (Inl (PartialResultError [(lit ''B'', Some ''b'')] [(lit ''B'', ''ECONNRESET'')])))"
  by (simp add: MultiplexingCache_def mc_mget_def priv_mget_def call_delegate_def
      delegate_settles_def keyref_key_def priv_convertToMap_def array_get_def
      mget_result_def mget_then_def key_after_scan_def copy_properties_def
      delegate_calls_def lit_def Let_def)

section \<open>The value codec\<close>

lemma prefixes_differ: "\<not> indexOf_is_0 (lit ''@orig@'' @ s) (lit ''@snappy@'')"
  by (simp add: indexOf_is_0_def lit_def)

lemma indexOf_is_0_hd: "indexOf_is_0 s p \<Longrightarrow> p \<noteq> [] \<Longrightarrow> hd s = hd p"
  unfolding indexOf_is_0_def by (metis hd_take length_greater_0_conv)

text \<open>
  C2 as first stated, that every non-empty value survives encoding and decoding, fails
  with compression disabled on the value \<^verbatim>\<open>"@orig@x"\<close>: it is stored as it is and read
  back as \<^verbatim>\<open>"x"\<close>, since \<^verbatim>\<open>_uncompress\<close> strips the tag whatever the setting.
\<close>

theorem raw_value_with_tag_counterexample:
  "promise_then
     (priv_compress echo_snappy (RedisConnection (Some False)) (Str (lit ''@orig@x'')))
     (priv_uncompress echo_snappy (RedisConnection (Some False)))
   \<noteq> Resolved (Str (lit ''@orig@x''))"
  by (simp add: promise_then_def priv_compress_def priv_uncompress_def RedisConnection_def
      falsy_def indexOf_is_0_def lit_def)

text \<open>
  C2, amended. For every non-empty value \<open>v\<close>. With compression enabled:
  \<open>decode (encode v) = v\<close> when \<open>v\<close> has at most 750 code units, and when it has more,
  the compression succeeds, and the library decompresses the stored text back to \<open>v\<close>
  (the stored value is then the compressed tag followed by the base64 text). With
  compression disabled: \<open>encode v\<close> is \<open>v\<close> itself, with no tag and without a call of
  the library, and \<open>decode (encode v) = v\<close> when \<open>v\<close> starts with neither tag.
\<close>

theorem codec_round_trip:
  assumes "v \<noteq> []"
  shows
    "(length v \<le> 750 \<longrightarrow>
        promise_then (priv_compress lib (RedisConnection (Some True)) (Str v))
          (priv_uncompress lib (RedisConnection (Some True))) = Resolved (Str v))
     \<and> (750 < length v \<and> nfcall_compress lib v = Fulfils c \<and>
        Buffer_base64 lib (toString_base64 lib c) = Inr b \<and> nfcall_uncompress lib b = Fulfils v \<longrightarrow>
        priv_compress lib (RedisConnection (Some True)) (Str v) =
          Resolved (Str (lit ''@snappy@'' @ toString_base64 lib c)) \<and>
        promise_then (priv_compress lib (RedisConnection (Some True)) (Str v))
          (priv_uncompress lib (RedisConnection (Some True))) = Resolved (Str v))
     \<and> priv_compress lib (RedisConnection (Some False)) (Str v) = Resolved (Str v)
     \<and> (\<not> indexOf_is_0 v (lit ''@snappy@'') \<and> \<not> indexOf_is_0 v (lit ''@orig@'') \<longrightarrow>
        promise_then (priv_compress lib (RedisConnection (Some False)) (Str v))
          (priv_uncompress lib (RedisConnection (Some False))) = Resolved (Str v))"
proof (intro conjI impI)
  assume "length v \<le> 750"
  with assms show "promise_then (priv_compress lib (RedisConnection (Some True)) (Str v))
          (priv_uncompress lib (RedisConnection (Some True))) = Resolved (Str v)"
    by (simp add: promise_then_def priv_compress_def priv_uncompress_def RedisConnection_def
        falsy_def prefixes_differ) (simp add: indexOf_is_0_def lit_def)
next
  assume a: "750 < length v \<and> nfcall_compress lib v = Fulfils c \<and>
        Buffer_base64 lib (toString_base64 lib c) = Inr b \<and> nfcall_uncompress lib b = Fulfils v"
  with assms show e: "priv_compress lib (RedisConnection (Some True)) (Str v) =
          Resolved (Str (lit ''@snappy@'' @ toString_base64 lib c))"
    by (simp add: priv_compress_def RedisConnection_def falsy_def)
  have "priv_uncompress lib (RedisConnection (Some True))
          (Str (lit ''@snappy@'' @ toString_base64 lib c)) = Resolved (Str v)"
    using a by (simp add: priv_uncompress_def RedisConnection_def falsy_def indexOf_is_0_def)
      (simp add: lit_def)
  then show "promise_then (priv_compress lib (RedisConnection (Some True)) (Str v))
          (priv_uncompress lib (RedisConnection (Some True))) = Resolved (Str v)"
    by (simp only: e promise_then_def promise.case)
next
  from assms show "priv_compress lib (RedisConnection (Some False)) (Str v) = Resolved (Str v)"
    by (simp add: priv_compress_def RedisConnection_def)
next
  assume "\<not> indexOf_is_0 v (lit ''@snappy@'') \<and> \<not> indexOf_is_0 v (lit ''@orig@'')"
  with assms show "promise_then (priv_compress lib (RedisConnection (Some False)) (Str v))
          (priv_uncompress lib (RedisConnection (Some False))) = Resolved (Str v)"
    by (simp add: promise_then_def priv_compress_def priv_uncompress_def RedisConnection_def
        falsy_def)
qed

theorem codec_round_trip_witness:
  "lit ''hello'' \<noteq> [] \<and> length (lit ''hello'') \<le> 750
   \<and> promise_then
       (priv_compress echo_snappy (RedisConnection (Some True)) (Str (lit ''hello'')))
       (priv_uncompress echo_snappy (RedisConnection (Some True))) =
       Resolved (Str (lit ''hello''))
   \<and> replicate 751 (0x61 :: 16 word) \<noteq> []
   \<and> 750 < length (replicate 751 (0x61 :: 16 word))
   \<and> priv_compress echo_snappy (RedisConnection (Some True)) (Str (replicate 751 0x61)) =
       Resolved (Str (lit ''@snappy@'' @ replicate 751 0x61))
   \<and> promise_then
       (priv_compress echo_snappy (RedisConnection (Some True)) (Str (replicate 751 0x61)))
       (priv_uncompress echo_snappy (RedisConnection (Some True))) =
       Resolved (Str (replicate 751 0x61))
   \<and> promise_then
       (priv_compress echo_snappy (RedisConnection (Some False)) (Str (replicate 751 0x61)))
       (priv_uncompress echo_snappy (RedisConnection (Some False))) =
       Resolved (Str (replicate 751 0x61))"
proof -
  let ?v = "replicate 751 (0x61 :: 16 word)"
  have h0: "?v \<noteq> []" by simp
  have h1: "750 < length ?v \<and> nfcall_compress echo_snappy ?v = Fulfils ?v \<and>
        Buffer_base64 echo_snappy (toString_base64 echo_snappy ?v) = Inr ?v \<and>
        nfcall_uncompress echo_snappy ?v = Fulfils ?v"
    by (simp add: echo_snappy_def)
  have h2: "\<not> indexOf_is_0 ?v (lit ''@snappy@'') \<and> \<not> indexOf_is_0 ?v (lit ''@orig@'')"
    by (auto dest: indexOf_is_0_hd simp: lit_def)
  note t = codec_round_trip [OF h0, of echo_snappy ?v ?v]
  from t h1 have c1: "priv_compress echo_snappy (RedisConnection (Some True)) (Str ?v) =
       Resolved (Str (lit ''@snappy@'' @ toString_base64 echo_snappy ?v))"
    and c2: "promise_then (priv_compress echo_snappy (RedisConnection (Some True)) (Str ?v))
       (priv_uncompress echo_snappy (RedisConnection (Some True))) = Resolved (Str ?v)"
    by blast+
  from t h2 have c3: "promise_then (priv_compress echo_snappy (RedisConnection (Some False)) (Str ?v))
       (priv_uncompress echo_snappy (RedisConnection (Some False))) = Resolved (Str ?v)"
    by blast
  have c1': "priv_compress echo_snappy (RedisConnection (Some True)) (Str ?v) =
       Resolved (Str (lit ''@snappy@'' @ ?v))"
    using c1 by (simp add: echo_snappy_def)
  have g0: "lit ''hello'' \<noteq> []" and g1: "length (lit ''hello'') \<le> 750"
    by (simp_all add: lit_def)
  from codec_round_trip [OF g0, of echo_snappy] g1
  have c0: "promise_then
       (priv_compress echo_snappy (RedisConnection (Some True)) (Str (lit ''hello'')))
       (priv_uncompress echo_snappy (RedisConnection (Some True))) =
       Resolved (Str (lit ''hello''))"
    by blast
  from g0 g1 c0 h0 h1 c1' c2 c3 show ?thesis by blast
qed

text \<open>
  C3. A value of 751 code units, compression enabled, and a \<^verbatim>\<open>snappy.compress\<close> that
  reports an error through its callback: \<^verbatim>\<open>_compress\<close> returns a promise rejected with
  that error. The \<^verbatim>\<open>catch\<close> block, which holds the fallback to the uncompressed tag, is
  not entered, since nothing was thrown.
\<close>

theorem compression_error_reaches_caller:
  "priv_compress (failing_snappy ''compress failed'') (RedisConnection (Some True))
     (Str (replicate 751 0x61)) = Rejected ''compress failed''"
  by (simp add: priv_compress_def RedisConnection_def falsy_def failing_snappy_def)

text \<open>
  C4. A stored value with the compressed tag, and a \<^verbatim>\<open>snappy.uncompress\<close> that reports
  an error through its callback, as for a corrupt payload: \<^verbatim>\<open>_uncompress\<close> returns a
  promise rejected with that error, not a miss, whatever the compression setting of the
  connection.
\<close>

theorem decompression_error_reaches_caller:
  "priv_uncompress (failing_snappy ''Invalid input'') (RedisConnection enabled)
     (Str (lit ''@snappy@AAAA'')) = Rejected ''Invalid input''"
  by (simp add: priv_uncompress_def RedisConnection_def falsy_def failing_snappy_def
      indexOf_is_0_def lit_def)

section \<open>Dispatch with a timeout\<close>

text \<open>
  C9. An operation dispatched at time \<open>t0\<close>. If the timer fires first, the deferred is
  rejected with a \<^verbatim>\<open>TimeoutError\<close> that carries the description, and the timeout counter
  of the operation name goes up by one; the timer's function does nothing else, so the
  underlying call goes on, and when its callback runs at \<open>t1\<close> the latency statistic of
  the operation name receives \<open>t1 - t0\<close> while the deferred gets no second call. If the
  callback runs first, it records \<open>t1 - t0\<close>, settles the deferred with the error or the
  data, and clears the timer, which then never fires. In general every run of the callback
  records the elapsed time since dispatch, and a callback that runs after the timeout leaves
  the deferred as it was.
\<close>

theorem timeout_then_late_completion:
  fixes self :: instruments and data :: 'd and err :: "'e option"
  shows
    "(let r0 = priv_makeNodeResolverWithTimeout t0 name desc :: ('e, 'd) resolver;
          (self1, r1) = timer_fires (self, r0);
          (self2, r2) = node_callback t1 err data (self1, r1)
      in deferred r1 = [Reject (TimeoutError (lit ''Cache request timeout. '' @ desc))]
       \<and> timeoutCounter self1 name = timeoutCounter self name + 1
       \<and> stats self1 = stats self
       \<and> stats self2 name = stats self name @ [t1 - t0]
       \<and> timeoutCounter self2 = timeoutCounter self1
       \<and> deferred r2 = deferred r1)
     \<and> (let r0 = priv_makeNodeResolverWithTimeout t0 name desc :: ('e, 'd) resolver;
              (self1, r1) = node_callback t1 err data (self, r0)
          in deferred r1 = [case err of Some e \<Rightarrow> Reject (ClientError e) | None \<Rightarrow> Resolve data]
           \<and> stats self1 name = stats self name @ [t1 - t0]
           \<and> timeoutCounter self1 = timeoutCounter self
           \<and> timer_fires (self1, r1) = (self1, r1))
     \<and> (\<forall>(r :: ('e, 'd) resolver) c.
           stats (fst (node_callback now err data (c, r))) (opName r) =
             stats c (opName r) @ [now - startTime r])
     \<and> (\<forall>(r :: ('e, 'd) resolver) c.
           isTimeout r \<longrightarrow> deferred (snd (node_callback now err data (c, r))) = deferred r)"
  by (simp add: priv_makeNodeResolverWithTimeout_def timer_fires_def node_callback_def Let_def)

theorem timeout_then_late_completion_witness:
  "isTimeout (snd timed_out_mget)
   \<and> deferred (snd timed_out_mget) =
       [Reject (TimeoutError (lit ''Cache request timeout. Redis [mget]''))]
   \<and> timeoutCounter (fst timed_out_mget) ''mget'' = 1
   \<and> deferred (snd (node_callback 1200 None [Str (lit ''v'')] timed_out_mget)) =
       [Reject (TimeoutError (lit ''Cache request timeout. Redis [mget]''))]
   \<and> stats (fst (node_callback 1200 None [Str (lit ''v'')] timed_out_mget)) ''mget'' = [200]"
proof -
  have s: "timed_out_mget =
     (no_measurements\<lparr>timeoutCounter := (timeoutCounter no_measurements)(''mget'' := 1)\<rparr>,
      \<lparr>isTimeout = True, startTime = 1000, timerPending = False, opName = ''mget'',
       opDesc = lit ''Redis [mget]'',
       deferred = [Reject (TimeoutError (lit ''Cache request timeout. Redis [mget]''))]\<rparr>)"
    by (simp add: timed_out_mget_def timer_fires_def priv_makeNodeResolverWithTimeout_def
        no_measurements_def lit_def)
  have h: "isTimeout (snd timed_out_mget)" by (simp add: s)
  note t = timeout_then_late_completion
    [where 'e = string and 'd = "jsvalue list" and now = 1200 and err = None
       and data = "[Str (lit ''v'')]"]
  from t have "\<forall>r c. isTimeout r \<longrightarrow>
      deferred (snd (node_callback 1200 (None :: string option) [Str (lit ''v'')] (c, r))) = deferred r"
    by blast
  from this [rule_format, OF h, of "fst timed_out_mget"]
  have c1: "deferred (snd (node_callback 1200 None [Str (lit ''v'')] timed_out_mget)) =
       deferred (snd timed_out_mget)"
    by simp
  from t have "\<forall>r c. stats (fst (node_callback 1200 (None :: string option) [Str (lit ''v'')] (c, r))) (opName r) =
             stats c (opName r) @ [1200 - startTime r]"
    by blast
  from this [rule_format, of "fst timed_out_mget" "snd timed_out_mget"]
  have c2: "stats (fst (node_callback 1200 None [Str (lit ''v'')] timed_out_mget)) ''mget'' = [200]"
    by (simp add: s no_measurements_def)
  from h c1 c2 show ?thesis by (simp add: s)
qed

section \<open>getServerInfo\<close>

text \<open>
  C5. The handler of \<^verbatim>\<open>getServerInfo\<close> resolves for every output of the \<^verbatim>\<open>INFO\<close>
  command: it never fails with the malformed-output error. For the output
  \<^verbatim>\<open>used_memory:1024\<close>, which has no other field, it resolves with a record whose
  \<^verbatim>\<open>memoryBytes\<close> is 1024, whose next three fields are \<^verbatim>\<open>NaN\<close>, and whose
  \<^verbatim>\<open>numOfKeys\<close> was never assigned.
\<close>

theorem malformed_info_still_resolves:
  "(\<forall>out. \<exists>info. getServerInfo_then fresh out = (Resolved info :: ('e info_error, server_info) promise))
   \<and> (getServerInfo_then fresh (lit ''used_memory:1024'') :: ('e info_error, server_info) promise) =
       Resolved (fresh\<lparr>memoryBytes := Num 1024, memoryRssBytes := NaN, evictedKeys := NaN,
                       numOfConnections := NaN\<rparr>)"
proof
  show "\<forall>out. \<exists>info. getServerInfo_then fresh out = (Resolved info :: ('e info_error, server_info) promise)"
    by (simp add: getServerInfo_then_def Let_def)
  show "(getServerInfo_then fresh (lit ''used_memory:1024'') :: ('e info_error, server_info) promise) =
       Resolved (fresh\<lparr>memoryBytes := Num 1024, memoryRssBytes := NaN, evictedKeys := NaN,
                       numOfConnections := NaN\<rparr>)"
    by (simp add: getServerInfo_then_def parse_items_def property_def parseInt10_def lit_def
        trim_def array_at_def isWhiteSpace_def isDigit_def digits_value_def)
qed

end
